theory Spec2Isabelle
  imports Main "HOL-Library.Sublist" "HOL-Library.Word"
begin

section \<open>GrinchBotV1: the message handlers of MainBot.py\<close>

text \<open>
  The bot answers Telegram messages from a reference file through a generative-text
  service. This theory embeds \<^verbatim>\<open>MainBot.py\<close>: the startup check of the
  credentials, \<^verbatim>\<open>load_reference\<close>, \<^verbatim>\<open>ask_gemini\<close>, the two
  handlers and \<^verbatim>\<open>main\<close>. Every call that leaves the process (logging, the
  file system, the Telegram API, the Gemini API) appends an event to a trace, and
  every such call that can raise is answered by the environment, so that each
  \<^verbatim>\<open>try\<close>/\<^verbatim>\<open>except\<close> of the source is a case distinction here.
\<close>

subsection \<open>Strings, exceptions, events\<close>

text \<open>
  A Python \<^verbatim>\<open>str\<close> is a sequence of Unicode code points. The literals of the
  source are Ukrainian, so they are written as lists of code points.
\<close>

type_synonym ustring = "nat list"

text \<open>
  The exceptions are the instances of \<^verbatim>\<open>Exception\<close>, which is what
  \<^verbatim>\<open>except Exception\<close> catches; the class matters only for
  \<^verbatim>\<open>except FileNotFoundError\<close>. \<open>exn_str\<close> is what \<^verbatim>\<open>str(e)\<close> gives,
  the text that the f-strings of the log lines embed. The calls of \<^verbatim>\<open>logging\<close>
  raise nothing.
\<close>

datatype exn_class =
  FileNotFoundError | PermissionError | IsADirectoryError | OSError | UnicodeDecodeError
  | OtherException

datatype exn = Exn (exn_cls: exn_class) (exn_str: ustring)

datatype level = INFO | ERROR | CRITICAL

text \<open>
  \<^verbatim>\<open>message.answer(text)\<close> sends with the bot's default parse mode, which line 55
  sets to HTML; line 114 overrides it with Markdown.
\<close>

datatype parse_mode = HTML | Markdown

datatype reply = Reply (reply_chat: int) (reply_text: ustring) (reply_mode: parse_mode)

datatype event =
    Log level ustring
  | Print ustring
  | DeleteWebhook
  | StartPolling
  | ChatAction int ustring
  | PathExists ustring
  | OpenRead ustring
  | GenerateContent ustring
  | Answer reply

text \<open>
  The fields of \<^verbatim>\<open>types.Message\<close> that the handlers read: the id and the full
  name of \<^verbatim>\<open>from_user\<close> (the sender, present on every message of a private or
  group chat), the id of \<^verbatim>\<open>chat\<close>, and \<^verbatim>\<open>text\<close>, called \<open>msg_text\<close>
  here, which is optional (a photo or a sticker has none).
\<close>

record message =
  from_user_id :: int
  from_user_full_name :: ustring
  chat_id :: int
  msg_text :: "ustring option"

subsection \<open>The environment\<close>

text \<open>
  What is at a path, as the three system calls behind the source see it.
  \<^item> Nothing.
  \<^item> \<open>NoStat\<close>: something that \<^verbatim>\<open>stat\<close> cannot reach, because a directory of
    the path may not be searched (EACCES) or the path is a symlink loop (ELOOP).
    \<^verbatim>\<open>os.path.exists\<close> catches the error of \<^verbatim>\<open>stat\<close> and returns
    \<^verbatim>\<open>False\<close>; \<^verbatim>\<open>open\<close> raises it.
  \<^item> \<open>Unreadable\<close>: something that \<^verbatim>\<open>stat\<close> reaches and \<^verbatim>\<open>open\<close> refuses:
    a file without read permission, or a directory.
  \<^item> \<open>File\<close>: a file that opens, with its bytes.

  The failing nodes carry the text of the exception that \<^verbatim>\<open>open\<close> raises.
\<close>

datatype stat_failure = SearchDenied | SymlinkLoop

datatype io_failure = PermissionDenied | IsADirectory

datatype node =
    NoStat stat_failure ustring
  | Unreadable io_failure ustring
  | File "8 word list"

type_synonym filesystem = "ustring \<Rightarrow> node option"

fun stat_class :: "stat_failure \<Rightarrow> exn_class" where
  "stat_class SearchDenied = PermissionError"
| "stat_class SymlinkLoop = OSError"

fun io_class :: "io_failure \<Rightarrow> exn_class" where
  "io_class PermissionDenied = PermissionError"
| "io_class IsADirectory = IsADirectoryError"

text \<open>
  The answers of the outside world during one run: the files, the working directory,
  and for each call into a library whether it raises. \<open>logging_setup\<close> is the
  outcome of \<^verbatim>\<open>setup_logging()\<close> and \<^verbatim>\<open>load_dotenv()\<close> (lines 42 and 46),
  which create the log directory and open the log file. \<open>create_clients\<close> is the
  outcome of lines 55-60 for a token and a key: \<^verbatim>\<open>Bot(token=...)\<close> validates the
  token and raises on one that aiogram does not accept. \<open>generate_content\<close> stands
  for \<^verbatim>\<open>GEMINI_MODEL.generate_content_async(prompt)\<close> followed by \<^verbatim>\<open>.text\<close>.
\<close>

record world =
  fs :: filesystem
  cwd :: ustring
  logging_setup :: "exn option"
  create_clients :: "ustring \<Rightarrow> ustring \<Rightarrow> exn option"
  delete_webhook :: "exn option"
  send_chat_action :: "int \<Rightarrow> ustring \<Rightarrow> exn option"
  generate_content :: "ustring \<Rightarrow> exn + ustring"
  send_message :: "reply \<Rightarrow> exn option"

subsection \<open>The string literals of the source\<close>

text \<open>Line 48: the name \<^verbatim>\<open>TELEGRAM_TOKEN\<close>.\<close>

definition env_TELEGRAM_TOKEN :: ustring where
  "env_TELEGRAM_TOKEN =
    [84, 69, 76, 69, 71, 82, 65, 77, 95, 84, 79, 75, 69, 78]"

text \<open>Line 49: the name \<^verbatim>\<open>GEMINI_API_KEY\<close>.\<close>

definition env_GEMINI_API_KEY :: ustring where
  "env_GEMINI_API_KEY =
    [71, 69, 77, 73, 78, 73, 95, 65, 80, 73, 95, 75, 69, 89]"

text \<open>Line 52: the critical log line (Ukrainian: could not find TELEGRAM_TOKEN or GEMINI_API_KEY in the environment variables).\<close>

definition critical_text :: ustring where
  "critical_text =
    [1053, 1077, 32, 1074, 1076, 1072, 1083, 1086, 1089, 1103, 32, 1079, 1085, 1072, 1081, 1090,
     1080, 32, 84, 69, 76, 69, 71, 82, 65, 77, 95, 84, 79, 75, 69, 78, 32, 1072, 1073, 1086, 32,
     71, 69, 77, 73, 78, 73, 95, 65, 80, 73, 95, 75, 69, 89, 32, 1091, 32, 1079, 1084, 1110,
     1085, 1085, 1080, 1093, 32, 1089, 1077, 1088, 1077, 1076, 1086, 1074, 1080, 1097, 1072, 46]"

text \<open>Line 53: the argument of \<^verbatim>\<open>exit\<close> (Ukrainian: error, required tokens are absent; check the .env file or the environment variables).\<close>

definition exit_text :: ustring where
  "exit_text =
    [1055, 1086, 1084, 1080, 1083, 1082, 1072, 58, 32, 1042, 1110, 1076, 1089, 1091, 1090, 1085,
     1110, 32, 1085, 1077, 1086, 1073, 1093, 1110, 1076, 1085, 1110, 32, 1090, 1086, 1082, 1077,
     1085, 1080, 46, 32, 1055, 1077, 1088, 1077, 1074, 1110, 1088, 1090, 1077, 32, 1092, 1072,
     1081, 1083, 32, 46, 101, 110, 118, 32, 1072, 1073, 1086, 32, 1079, 1084, 1110, 1085, 1085,
     1110, 32, 1089, 1077, 1088, 1077, 1076, 1086, 1074, 1080, 1097, 1072, 46]"

text \<open>Line 64: the default path \<^verbatim>\<open>FAQ.txt\<close>.\<close>

definition FAQ_txt :: ustring where
  "FAQ_txt =
    [70, 65, 81, 46, 116, 120, 116]"

text \<open>Line 67: the f-string around the path (Ukrainian: file '...' not found).\<close>

definition not_found_pre :: ustring where
  "not_found_pre =
    [1060, 1072, 1081, 1083, 32, 39]"

text \<open>Line 67, after the path.\<close>

definition not_found_post :: ustring where
  "not_found_post =
    [39, 32, 1085, 1077, 32, 1079, 1085, 1072, 1081, 1076, 1077, 1085, 1086, 46]"

text \<open>Lines 74-79: persona, scope, politeness and language instructions, then the opening delimiter line of the reference block.\<close>

definition prompt_head :: ustring where
  "prompt_head =
    [1058, 1080, 32, 8212, 32, 1040, 1089, 1080, 1089, 1090, 1077, 1085, 1090, 32, 1082, 1072,
     1092, 1077, 1076, 1088, 1080, 32, 1082, 1086, 1084, 1087, 8217, 1102, 1090, 1077, 1088,
     1085, 1080, 1093, 32, 1085, 1072, 1091, 1082, 46, 32, 1058, 1074, 1086, 1108, 32, 1079,
     1072, 1074, 1076, 1072, 1085, 1085, 1103, 32, 8212, 32, 1095, 1110, 1090, 1082, 1086, 32,
     1090, 1072, 32, 1083, 1072, 1082, 1086, 1085, 1110, 1095, 1085, 1086, 32, 1074, 1110, 1076,
     1087, 1086, 1074, 1110, 1076, 1072, 1090, 1080, 32, 1085, 1072, 32, 1087, 1080, 1090, 1072,
     1085, 1085, 1103, 32, 1089, 1090, 1091, 1076, 1077, 1085, 1090, 1110, 1074, 32, 1090, 1072,
     32, 1072, 1073, 1110, 1090, 1091, 1088, 1110, 1108, 1085, 1090, 1110, 1074, 44, 32, 1089,
     1087, 1080, 1088, 1072, 1102, 1095, 1080, 1089, 1100, 32, 1085, 1072, 32, 1085, 1072, 1076,
     1072, 1085, 1091, 32, 1090, 1086, 1073, 1110, 32, 1076, 1086, 1074, 1110, 1076, 1082, 1086,
     1074, 1091, 32, 1110, 1085, 1092, 1086, 1088, 1084, 1072, 1094, 1110, 1102, 46, 32, 1059,
     32, 1074, 1080, 1087, 1072, 1076, 1082, 1091, 44, 32, 1103, 1082, 1097, 1086, 32, 1087,
     1080, 1090, 1072, 1085, 1085, 1103, 32, 1085, 1077, 32, 1084, 1110, 1089, 1090, 1080, 1090,
     1100, 32, 1110, 1085, 1092, 1086, 1088, 1084, 1072, 1094, 1110, 1111, 32, 1079, 32, 1076,
     1086, 1074, 1110, 1076, 1082, 1080, 44, 32, 32, 1074, 1074, 1110, 1095, 1080, 1083, 1080,
     1074, 1086, 32, 1087, 1086, 1074, 1110, 1076, 1086, 1084, 1083, 1103, 1081, 32, 1087, 1088,
     1086, 32, 1094, 1077, 46, 32, 1042, 1110, 1076, 1087, 1086, 1074, 1110, 32, 1085, 1072,
     1076, 1072, 1074, 1072, 1081, 32, 1090, 1110, 1083, 1100, 1082, 1080, 32, 1091, 1082, 1088,
     1072, 1111, 1085, 1089, 1100, 1082, 1086, 1102, 32, 1084, 1086, 1074, 1086, 1102, 46, 10,
     10, 45, 45, 45, 32, 1044, 1086, 1074, 1110, 1076, 1082, 1086, 1074, 1072, 32, 1110, 1085,
     1092, 1086, 1088, 1084, 1072, 1094, 1110, 1103, 32, 45, 45, 45, 10]"

text \<open>Lines 80-82: the newline after the reference, the closing delimiter, a blank line and the label before the question (Ukrainian: user's question).\<close>

definition prompt_tail :: ustring where
  "prompt_tail =
    [10, 45, 45, 45, 32, 1050, 1110, 1085, 1077, 1094, 1100, 32, 1076, 1086, 1074, 1110, 1076,
     1082, 1086, 1074, 1086, 1111, 32, 1110, 1085, 1092, 1086, 1088, 1084, 1072, 1094, 1110,
     1111, 32, 45, 45, 45, 10, 10, 1055, 1080, 1090, 1072, 1085, 1085, 1103, 32, 1082, 1086,
     1088, 1080, 1089, 1090, 1091, 1074, 1072, 1095, 1072, 58, 32]"

text \<open>Line 93: the pieces of the log f-string (Ukrainian: user ID (NAME) started the bot with the /start command).\<close>

definition start_log_pre :: ustring where
  "start_log_pre =
    [1050, 1086, 1088, 1080, 1089, 1090, 1091, 1074, 1072, 1095, 32]"

text \<open>Line 93, between id and full name.\<close>

definition start_log_mid :: ustring where
  "start_log_mid =
    [32, 40]"

text \<open>Line 93, after the full name.\<close>

definition start_log_post :: ustring where
  "start_log_post =
    [41, 32, 1079, 1072, 1087, 1091, 1089, 1090, 1080, 1074, 32, 1073, 1086, 1090, 1072, 32,
     1082, 1086, 1084, 1072, 1085, 1076, 1086, 1102, 32, 47, 115, 116, 97, 114, 116, 46]"

text \<open>Lines 95-96: the greeting (Ukrainian: hello, I am the assistant of the computer science department; how can I help, write your question).\<close>

definition greeting_text :: ustring where
  "greeting_text =
    [1055, 1088, 1080, 1074, 1110, 1090, 33, 32, 1071, 32, 45, 32, 1072, 1089, 1080, 1089, 1090,
     1077, 1085, 1090, 32, 1082, 1072, 1092, 1077, 1076, 1088, 1080, 32, 1082, 1086, 1084, 1087,
     8217, 1102, 1090, 1077, 1088, 1085, 1080, 1093, 32, 1085, 1072, 1091, 1082, 46, 10, 10,
     1063, 1080, 1084, 32, 1084, 1086, 1078, 1091, 32, 1076, 1086, 1087, 1086, 1084, 1086, 1075,
     1090, 1080, 63, 32, 1053, 1072, 1087, 1080, 1096, 1110, 1090, 1100, 32, 1089, 1074, 1086,
     1108, 32, 1087, 1080, 1090, 1072, 1085, 1085, 1103]"

text \<open>Line 102: the pieces of the log f-string (Ukrainian: received a message from ID: 'TEXT').\<close>

definition text_log_pre :: ustring where
  "text_log_pre =
    [1054, 1090, 1088, 1080, 1084, 1072, 1085, 1086, 32, 1087, 1086, 1074, 1110, 1076, 1086,
     1084, 1083, 1077, 1085, 1085, 1103, 32, 1074, 1110, 1076, 32]"

text \<open>Line 102, between id and text.\<close>

definition text_log_mid :: ustring where
  "text_log_mid =
    [58, 32, 39]"

text \<open>Line 102, the closing quote.\<close>

definition text_log_post :: ustring where
  "text_log_post =
    [39]"

text \<open>Line 103: the chat action \<^verbatim>\<open>typing\<close>.\<close>

definition typing :: ustring where
  "typing =
    [116, 121, 112, 105, 110, 103]"

text \<open>Line 109: the missing-file notice (Ukrainian: file `FAQ.txt`; please check that it is there).\<close>

definition missing_file_text :: ustring where
  "missing_file_text =
    [1060, 1072, 1081, 1083, 32, 96, 70, 65, 81, 46, 116, 120, 116, 96, 46, 32, 1041, 1091, 1076,
     1100, 32, 1083, 1072, 1089, 1082, 1072, 44, 32, 1087, 1077, 1088, 1077, 1074, 1110, 1088,
     1090, 1077, 32, 1081, 1086, 1075, 1086, 32, 1085, 1072, 1103, 1074, 1085, 1110, 1089, 1090,
     1100, 46]"

text \<open>Line 115: the pieces of the log f-string (Ukrainian: answer given for ID.).\<close>

definition answered_log_pre :: ustring where
  "answered_log_pre =
    [1053, 1072, 1076, 1072, 1085, 1086, 32, 1074, 1110, 1076, 1087, 1086, 1074, 1110, 1076,
     1100, 32, 1076, 1083, 1103, 32]"

text \<open>Line 115, the final full stop.\<close>

definition answered_log_post :: ustring where
  "answered_log_post =
    [46]"

text \<open>Line 117: the pieces of the log f-string (Ukrainian: Gemini API error ID: ERROR).\<close>

definition gemini_log_pre :: ustring where
  "gemini_log_pre =
    [1055, 1086, 1084, 1080, 1083, 1082, 1072, 32, 71, 101, 109, 105, 110, 105, 32, 65, 80, 73,
     32]"

text \<open>Line 117, between id and error text.\<close>

definition gemini_log_mid :: ustring where
  "gemini_log_mid =
    [58, 32]"

text \<open>Line 118: the generic failure notice (Ukrainian: an error occurred while processing your request; try again later).\<close>

definition generic_failure_text :: ustring where
  "generic_failure_text =
    [1042, 1080, 1085, 1080, 1082, 1083, 1072, 32, 1087, 1086, 1084, 1080, 1083, 1082, 1072, 32,
     1087, 1088, 1080, 32, 1086, 1073, 1088, 1086, 1073, 1094, 1110, 32, 1074, 1072, 1096, 1086,
     1075, 1086, 32, 1079, 1072, 1087, 1080, 1090, 1091, 46, 32, 1057, 1087, 1088, 1086, 1073,
     1091, 1081, 1090, 1077, 32, 1097, 1077, 32, 1088, 1072, 1079, 32, 1087, 1110, 1079, 1085,
     1110, 1096, 1077, 46]"

text \<open>Line 124: the log line before polling (Ukrainian: the bot is starting...).\<close>

definition starting_text :: ustring where
  "starting_text =
    [1041, 1086, 1090, 32, 1079, 1072, 1087, 1091, 1089, 1082, 1072, 1108, 1090, 1100, 1089,
     1103, 46, 46, 46]"

text \<open>Line 136: the prefix of the critical log line (Ukrainian: error during startup:).\<close>

definition startup_failure_pre :: ustring where
  "startup_failure_pre =
    [1055, 1086, 1084, 1080, 1083, 1082, 1072, 32, 1087, 1110, 1076, 32, 1095, 1072, 1089, 32,
     1079, 1072, 1087, 1091, 1089, 1082, 1091, 58, 32]"

text \<open>Line 128: the label printed before the working directory (Ukrainian: current working directory:).\<close>

definition cwd_label :: ustring where
  "cwd_label =
    [1055, 1086, 1090, 1086, 1095, 1085, 1072, 32, 1088, 1086, 1073, 1086, 1095, 1072, 32, 1076,
     1080, 1088, 1077, 1082, 1090, 1086, 1088, 1110, 1103, 58]"

text \<open>Line 129: the label printed before the file test (Ukrainian: file FAQ.txt exists:).\<close>

definition isfile_label :: ustring where
  "isfile_label =
    [1060, 1072, 1081, 1083, 32, 70, 65, 81, 46, 116, 120, 116, 32, 1110, 1089, 1085, 1091, 1108,
     58]"

subsection \<open>Formatting\<close>

text \<open>\<^verbatim>\<open>str\<close> of an integer, as an f-string renders a user id: decimal digits, with a minus sign.\<close>

fun digits :: "nat \<Rightarrow> ustring" where
  "digits n = (if n < 10 then [48 + n] else digits (n div 10) @ [48 + n mod 10])"

declare digits.simps [simp del]

definition str_int :: "int \<Rightarrow> ustring" where
  "str_int i = (if i < 0 then 45 # digits (nat (- i)) else digits (nat i))"

text \<open>
  An f-string renders an optional string with \<^verbatim>\<open>format\<close>: a string as itself,
  \<^verbatim>\<open>None\<close> as the four characters \<^verbatim>\<open>None\<close>.
\<close>

definition str_opt :: "ustring option \<Rightarrow> ustring" where
  "str_opt t = (case t of None \<Rightarrow> [78, 111, 110, 101] | Some s \<Rightarrow> s)"

definition str_bool :: "bool \<Rightarrow> ustring" where
  "str_bool b = (if b then [84, 114, 117, 101] else [70, 97, 108, 115, 101])"

subsection \<open>Startup check (lines 48-53)\<close>

text \<open>Python's truth value of the result of \<^verbatim>\<open>os.getenv\<close>: \<^verbatim>\<open>None\<close> and the empty string are false.\<close>

definition truthy :: "ustring option \<Rightarrow> bool" where
  "truthy v = (case v of None \<Rightarrow> False | Some s \<Rightarrow> s \<noteq> [])"

text \<open>
  The module-level check. The environment is the process environment after
  \<^verbatim>\<open>load_dotenv()\<close>. The result is the trace and, when the check calls
  \<^verbatim>\<open>exit\<close>, its argument.
\<close>

definition startup :: "(ustring \<Rightarrow> ustring option) \<Rightarrow> event list \<times> ustring option" where
  "startup environ =
     (let TELEGRAM_TOKEN = environ env_TELEGRAM_TOKEN;
          GEMINI_API_KEY = environ env_GEMINI_API_KEY
      in if \<not> truthy TELEGRAM_TOKEN \<or> \<not> truthy GEMINI_API_KEY
         then ([Log CRITICAL critical_text], Some exit_text)
         else ([], None))"

subsection \<open>\<^verbatim>\<open>load_reference\<close> (lines 64-69)\<close>

text \<open>
  \<^verbatim>\<open>os.path.exists\<close> is true when \<^verbatim>\<open>stat\<close> succeeds on the path, and false
  when it fails for any reason: it does not tell a path that is not there from one
  that cannot be reached. \<^verbatim>\<open>os.path.isfile\<close> is true when \<^verbatim>\<open>stat\<close> succeeds
  and finds a regular file.
\<close>

definition os_path_exists :: "filesystem \<Rightarrow> ustring \<Rightarrow> bool" where
  "os_path_exists files p =
     (case files p of
        None \<Rightarrow> False
      | Some (NoStat _ _) \<Rightarrow> False
      | Some _ \<Rightarrow> True)"

definition os_path_isfile :: "filesystem \<Rightarrow> ustring \<Rightarrow> bool" where
  "os_path_isfile files p =
     (case files p of
        None \<Rightarrow> False
      | Some (NoStat _ _) \<Rightarrow> False
      | Some (Unreadable IsADirectory _) \<Rightarrow> False
      | Some _ \<Rightarrow> True)"

text \<open>
  The strict UTF-8 decoder of Python, on the values of the bytes, reading one byte at
  a time: \<open>need\<close> continuation bytes (\<open>0x80..0xBF\<close>) are still due for the code
  point whose bits so far are \<open>acc\<close>, and a code point of this length must be at
  least \<open>lowest\<close> (no overlong form), no surrogate (\<open>U+D800..U+DFFF\<close>) and at
  most \<open>U+10FFFF\<close>. \<open>None\<close> is \<^verbatim>\<open>UnicodeDecodeError\<close>.
\<close>

definition continuation :: "nat \<Rightarrow> bool" where
  "continuation b = (128 \<le> b \<and> b < 192)"

fun decode_from :: "nat \<Rightarrow> nat \<Rightarrow> nat \<Rightarrow> nat list \<Rightarrow> ustring option" where
  "decode_from need acc lowest [] = (if need = 0 then Some [] else None)"
| "decode_from need acc lowest (b # bs) =
     (if need = 0 then
        (if b < 128 then map_option ((#) b) (decode_from 0 0 0 bs)
         else if 192 \<le> b \<and> b < 224 then decode_from 1 (b - 192) 128 bs
         else if 224 \<le> b \<and> b < 240 then decode_from 2 (b - 224) 2048 bs
         else if 240 \<le> b \<and> b < 248 then decode_from 3 (b - 240) 65536 bs
         else None)
      else if continuation b then
        (let c = acc * 64 + (b - 128)
         in if 1 < need then decode_from (need - 1) c lowest bs
            else if lowest \<le> c \<and> (c < 55296 \<or> 57344 \<le> c) \<and> c < 1114112
            then map_option ((#) c) (decode_from 0 0 0 bs)
            else None)
      else None)"

definition utf8_decode :: "nat list \<Rightarrow> ustring option" where
  "utf8_decode bytes = decode_from 0 0 0 bytes"

text \<open>
  Text mode with the default \<^verbatim>\<open>newline=None\<close>: on reading, every \<^verbatim>\<open>\r\n\<close> and
  every other \<^verbatim>\<open>\r\<close> becomes \<^verbatim>\<open>\n\<close>.
\<close>

fun universal_newlines :: "ustring \<Rightarrow> ustring" where
  "universal_newlines [] = []"
| "universal_newlines [c] = [if c = 13 then 10 else c]"
| "universal_newlines (c # d # cs) =
     (if c = 13 \<and> d = 10 then 10 # universal_newlines cs
      else if c = 13 then 10 # universal_newlines (d # cs)
      else c # universal_newlines (d # cs))"

text \<open>The text of the \<^verbatim>\<open>UnicodeDecodeError\<close>, without the byte and position it names.\<close>

definition codec_error_text :: ustring where
  "codec_error_text =
    [39, 117, 116, 102, 45, 56, 39, 32, 99, 111, 100, 101, 99, 32, 99, 97, 110, 39, 116, 32,
     100, 101, 99, 111, 100, 101, 32, 98, 121, 116, 101]"

text \<open>
  \<^verbatim>\<open>open(file_path, "r", encoding="utf-8")\<close> and \<^verbatim>\<open>f.read()\<close>. Opening a path
  that is not there raises \<^verbatim>\<open>FileNotFoundError\<close> with the text of errno 2;
  reading bytes that are not UTF-8 raises \<^verbatim>\<open>UnicodeDecodeError\<close>.
\<close>

definition open_read :: "filesystem \<Rightarrow> ustring \<Rightarrow> exn + ustring" where
  "open_read files p =
     (case files p of
        None \<Rightarrow> Inl (Exn FileNotFoundError
          [91, 69, 114, 114, 110, 111, 32, 50, 93, 32, 78, 111, 32, 115, 117, 99, 104, 32, 102,
           105, 108, 101, 32, 111, 114, 32, 100, 105, 114, 101, 99, 116, 111, 114, 121])
      | Some (NoStat why msg) \<Rightarrow> Inl (Exn (stat_class why) msg)
      | Some (Unreadable why msg) \<Rightarrow> Inl (Exn (io_class why) msg)
      | Some (File bytes) \<Rightarrow>
          (case utf8_decode (map unat bytes) of
             None \<Rightarrow> Inl (Exn UnicodeDecodeError codec_error_text)
           | Some s \<Rightarrow> Inr (universal_newlines s)))"

definition load_reference :: "filesystem \<Rightarrow> ustring \<Rightarrow> event list \<times> (exn + ustring)" where
  "load_reference files file_path =
     (if \<not> os_path_exists files file_path
      then ([PathExists file_path],
            Inl (Exn FileNotFoundError (not_found_pre @ file_path @ not_found_post)))
      else ([PathExists file_path, OpenRead file_path], open_read files file_path))"

subsection \<open>\<^verbatim>\<open>ask_gemini\<close> (lines 71-86)\<close>

text \<open>
  The local variable \<^verbatim>\<open>prompt\<close>. The handler passes \<^verbatim>\<open>message.text\<close> as the
  question, which may be \<^verbatim>\<open>None\<close>, so the question is optional here.
\<close>

definition ask_gemini_prompt :: "ustring option \<Rightarrow> ustring \<Rightarrow> ustring" where
  "ask_gemini_prompt question reference =
     prompt_head @ reference @ prompt_tail @ str_opt question"

definition ask_gemini :: "world \<Rightarrow> ustring option \<Rightarrow> ustring \<Rightarrow> event list \<times> (exn + ustring)" where
  "ask_gemini w question reference =
     (let prompt = ask_gemini_prompt question reference
      in ([GenerateContent prompt], generate_content w prompt))"

subsection \<open>The handlers (lines 90-118)\<close>

text \<open>\<^verbatim>\<open>message.answer\<close>: one send to the chat of the message, which may raise.\<close>

definition answer :: "world \<Rightarrow> message \<Rightarrow> ustring \<Rightarrow> parse_mode \<Rightarrow> event list \<times> exn option" where
  "answer w m body pm =
     ([Answer (Reply (chat_id m) body pm)], send_message w (Reply (chat_id m) body pm))"

text \<open>The four log lines of the handlers (lines 93, 102, 115 and 117), with their f-strings.\<close>

definition log_start :: "message \<Rightarrow> event" where
  "log_start m =
     Log INFO (start_log_pre @ str_int (from_user_id m) @ start_log_mid
               @ from_user_full_name m @ start_log_post)"

definition log_received :: "message \<Rightarrow> event" where
  "log_received m =
     Log INFO (text_log_pre @ str_int (from_user_id m) @ text_log_mid
               @ str_opt (msg_text m) @ text_log_post)"

definition log_answered :: "message \<Rightarrow> event" where
  "log_answered m = Log INFO (answered_log_pre @ str_int (from_user_id m) @ answered_log_post)"

definition log_gemini_error :: "message \<Rightarrow> exn \<Rightarrow> event" where
  "log_gemini_error m e =
     Log ERROR (gemini_log_pre @ str_int (from_user_id m) @ gemini_log_mid @ exn_str e)"

definition handle_start :: "world \<Rightarrow> message \<Rightarrow> event list \<times> exn option" where
  "handle_start w m =
     (let (t, r) = answer w m greeting_text HTML
      in (log_start m # t, r))"

text \<open>The body of \<^verbatim>\<open>except Exception as e\<close> (lines 116-118).\<close>

definition except_Exception :: "world \<Rightarrow> message \<Rightarrow> exn \<Rightarrow> event list \<times> exn option" where
  "except_Exception w m e =
     (let (t, r) = answer w m generic_failure_text HTML
      in (log_gemini_error m e # t, r))"

text \<open>
  The result of a handler is its trace and the exception that escapes it, if any.
  An exception raised outside the two \<^verbatim>\<open>try\<close> blocks, or by a send inside an
  \<^verbatim>\<open>except\<close> block, escapes.
\<close>

definition handle_text :: "world \<Rightarrow> message \<Rightarrow> event list \<times> exn option" where
  "handle_text w m =
     (let t0 = [log_received m, ChatAction (chat_id m) typing]
      in case send_chat_action w (chat_id m) typing of
           Some e \<Rightarrow> (t0, Some e)
         | None \<Rightarrow>
            (case load_reference (fs w) FAQ_txt of
               (t1, Inl err) \<Rightarrow>
                 if exn_cls err = FileNotFoundError
                 then (let (t2, r) = answer w m missing_file_text HTML
                       in (t0 @ t1 @ Log ERROR (exn_str err) # t2, r))
                 else (t0 @ t1, Some err)
             | (t1, Inr reference_text) \<Rightarrow>
                (case ask_gemini w (msg_text m) reference_text of
                   (t2, Inl e) \<Rightarrow>
                     (let (t3, r) = except_Exception w m e in (t0 @ t1 @ t2 @ t3, r))
                 | (t2, Inr answer_text) \<Rightarrow>
                    (case answer w m answer_text Markdown of
                       (t3, Some e) \<Rightarrow>
                         (let (t4, r) = except_Exception w m e
                          in (t0 @ t1 @ t2 @ t3 @ t4, r))
                     | (t3, None) \<Rightarrow>
                         (t0 @ t1 @ t2 @ t3 @ [log_answered m], None)))))"

subsection \<open>Routing and the program (lines 90, 99, 121-136)\<close>

text \<open>
  The handlers are registered in this order, and the first whose filter accepts the
  message runs. The filter \<^verbatim>\<open>Command("start")\<close> is aiogram's and is a parameter;
  the second handler has no filter.
\<close>

definition dispatch :: "(message \<Rightarrow> bool) \<Rightarrow> world \<Rightarrow> message \<Rightarrow> event list \<times> exn option" where
  "dispatch command_start w m =
     (if command_start m then handle_start w m else handle_text w m)"

text \<open>
  \<^verbatim>\<open>main\<close>, polling the messages that arrive before the process is stopped. An
  exception that escapes a handler is caught and logged by aiogram's dispatcher, so
  polling goes on with the next message. The trace lists the events of the messages
  one message after the other.
\<close>

definition main :: "(message \<Rightarrow> bool) \<Rightarrow> world \<Rightarrow> message list \<Rightarrow> event list \<times> exn option" where
  "main command_start w inbox =
     (case delete_webhook w of
        Some e \<Rightarrow> ([DeleteWebhook], Some e)
      | None \<Rightarrow>
          ([DeleteWebhook, Log INFO starting_text, StartPolling]
           @ concat (map (\<lambda>m. fst (dispatch command_start w m)) inbox), None))"

text \<open>
  How the process ends: through \<^verbatim>\<open>exit\<close> with its argument, with the traceback
  of an exception that nothing catches, or at the end of the script.
\<close>

datatype ending = SystemExit ustring | Uncaught exn | EndOfScript

text \<open>
  The module from line 48 on, run as a script: the startup check, the clients of
  lines 55-60, the two lines printed under \<^verbatim>\<open>__main__\<close>, then \<^verbatim>\<open>main\<close>, whose
  exception line 135 catches and logs.
\<close>

definition from_check ::
  "(ustring \<Rightarrow> ustring option) \<Rightarrow> (message \<Rightarrow> bool) \<Rightarrow> world \<Rightarrow> message list \<Rightarrow> event list \<times> ending" where
  "from_check environ command_start w inbox =
     (case startup environ of
        (t, Some msg) \<Rightarrow> (t, SystemExit msg)
      | (t, None) \<Rightarrow>
          (case (case (environ env_TELEGRAM_TOKEN, environ env_GEMINI_API_KEY) of
                   (Some token, Some api_key) \<Rightarrow> create_clients w token api_key
                 | _ \<Rightarrow> None) of
             Some e \<Rightarrow> (t, Uncaught e)
           | None \<Rightarrow>
               (let t1 = [Print (cwd_label @ 32 # cwd w),
                          Print (isfile_label @ 32
                                 # str_bool (os_path_isfile (fs w) FAQ_txt))];
                    (t2, r) = main command_start w inbox
                in case r of
                     None \<Rightarrow> (t @ t1 @ t2, EndOfScript)
                   | Some e \<Rightarrow>
                       (t @ t1 @ t2 @ [Log CRITICAL (startup_failure_pre @ exn_str e)],
                        EndOfScript))))"

text \<open>
  The whole module: logging and \<^verbatim>\<open>.env\<close> are set up first (lines 42 and 46), and
  an exception there ends the process before the check.
\<close>

definition program ::
  "(ustring \<Rightarrow> ustring option) \<Rightarrow> (message \<Rightarrow> bool) \<Rightarrow> world \<Rightarrow> message list \<Rightarrow> event list \<times> ending" where
  "program environ command_start w inbox =
     (case logging_setup w of
        Some e \<Rightarrow> ([], Uncaught e)
      | None \<Rightarrow> from_check environ command_start w inbox)"

subsection \<open>Reading a trace\<close>

text \<open>
  The replies a handler sends (its calls of \<^verbatim>\<open>message.answer\<close>), in order, those
  of them that the platform accepts, the prompts sent upstream, and the paths looked
  at on disk.
\<close>

fun replies :: "event list \<Rightarrow> reply list" where
  "replies [] = []"
| "replies (Answer r # es) = r # replies es"
| "replies (_ # es) = replies es"

definition delivered :: "world \<Rightarrow> event list \<Rightarrow> reply list" where
  "delivered w es = filter (\<lambda>r. send_message w r = None) (replies es)"

fun upstream_calls :: "event list \<Rightarrow> ustring list" where
  "upstream_calls [] = []"
| "upstream_calls (GenerateContent p # es) = p # upstream_calls es"
| "upstream_calls (_ # es) = upstream_calls es"

fun file_accesses :: "event list \<Rightarrow> ustring list" where
  "file_accesses [] = []"
| "file_accesses (PathExists p # es) = p # file_accesses es"
| "file_accesses (OpenRead p # es) = p # file_accesses es"
| "file_accesses (_ # es) = file_accesses es"

subsection \<open>A concrete run: the office-hours scenario and its failures\<close>

text \<open>
  The reference file holds \<^verbatim>\<open>Office hours: Mon-Fri 9-5.\<close>, the user Ann (id 42,
  chat 7) asks \<^verbatim>\<open>When are office hours?\<close>, and the upstream answers
  \<^verbatim>\<open>Office hours are Monday to Friday, 9 to 5.\<close>
\<close>

definition office_reference :: ustring where
  "office_reference =
    [79, 102, 102, 105, 99, 101, 32, 104, 111, 117, 114, 115, 58, 32, 77, 111, 110, 45, 70,
     114, 105, 32, 57, 45, 53, 46]"

definition office_question :: ustring where
  "office_question =
    [87, 104, 101, 110, 32, 97, 114, 101, 32, 111, 102, 102, 105, 99, 101, 32, 104, 111,
     117, 114, 115, 63]"

definition office_answer :: ustring where
  "office_answer =
    [79, 102, 102, 105, 99, 101, 32, 104, 111, 117, 114, 115, 32, 97, 114, 101, 32, 77, 111,
     110, 100, 97, 121, 32, 116, 111, 32, 70, 114, 105, 100, 97, 121, 44, 32, 57, 32, 116,
     111, 32, 53, 46]"

definition office_message :: message where
  "office_message =
     \<lparr>from_user_id = 42, from_user_full_name = [65, 110, 110], chat_id = 7,
      msg_text = Some office_question\<rparr>"

text \<open>A sticker from the same user: a message without text.\<close>

definition sticker_message :: message where
  "sticker_message =
     \<lparr>from_user_id = 42, from_user_full_name = [65, 110, 110], chat_id = 7,
      msg_text = None\<rparr>"

text \<open>A filter for the examples: the text is exactly \<^verbatim>\<open>/start\<close>.\<close>

definition exactly_start :: "message \<Rightarrow> bool" where
  "exactly_start m = (msg_text m = Some [47, 115, 116, 97, 114, 116])"

definition start_message :: message where
  "start_message =
     \<lparr>from_user_id = 42, from_user_full_name = [65, 110, 110], chat_id = 7,
      msg_text = Some [47, 115, 116, 97, 114, 116]\<rparr>"

text \<open>The bytes of the reference file: the reference is ASCII.\<close>

definition office_bytes :: "8 word list" where
  "office_bytes =
    [79, 102, 102, 105, 99, 101, 32, 104, 111, 117, 114, 115, 58, 32, 77, 111, 110, 45, 70,
     114, 105, 32, 57, 45, 53, 46]"

definition office_files :: filesystem where
  "office_files p = (if p = FAQ_txt then Some (File office_bytes) else None)"

definition no_files :: filesystem where
  "no_files p = None"

text \<open>The file is there, but the process may not read it (errno 13).\<close>

definition locked_files :: filesystem where
  "locked_files p =
     (if p = FAQ_txt
      then Some (Unreadable PermissionDenied
                   [80, 101, 114, 109, 105, 115, 115, 105, 111, 110, 32, 100, 101, 110, 105,
                    101, 100])
      else None)"



text \<open>A file saved in Windows-1252: \<^verbatim>\<open>9\<close>, an en dash as the byte \<open>0x96\<close>, \<^verbatim>\<open>5\<close>.\<close>

definition cp1252_files :: filesystem where
  "cp1252_files p = (if p = FAQ_txt then Some (File [57, 150, 53]) else None)"

definition clients_ok :: "ustring \<Rightarrow> ustring \<Rightarrow> exn option" where
  "clients_ok token api_key = None"

definition chat_action_ok :: "int \<Rightarrow> ustring \<Rightarrow> exn option" where
  "chat_action_ok c a = None"

definition chat_action_down :: "int \<Rightarrow> ustring \<Rightarrow> exn option" where
  "chat_action_down c a = Some (Exn OtherException [110, 101, 116, 119, 111, 114, 107, 32, 101, 114, 114, 111, 114])"

definition office_upstream :: "ustring \<Rightarrow> exn + ustring" where
  "office_upstream p = Inr office_answer"

definition upstream_down :: "ustring \<Rightarrow> exn + ustring" where
  "upstream_down p = Inl (Exn OtherException [113, 117, 111, 116, 97, 32, 101, 120, 99, 101, 101, 100, 101, 100])"

definition send_ok :: "reply \<Rightarrow> exn option" where
  "send_ok r = None"

text \<open>A platform that rejects every Markdown message and accepts the others.\<close>

definition markdown_rejected :: "reply \<Rightarrow> exn option" where
  "markdown_rejected r =
     (if reply_mode r = Markdown
      then Some (Exn OtherException [99, 97, 110, 39, 116, 32, 112, 97, 114, 115, 101, 32, 101, 110, 116, 105, 116, 105, 101, 115])
      else None)"

definition office_world :: world where
  "office_world =
     \<lparr>fs = office_files, cwd = [47, 98, 111, 116], logging_setup = None,
      create_clients = clients_ok, delete_webhook = None,
      send_chat_action = chat_action_ok, generate_content = office_upstream,
      send_message = send_ok\<rparr>"

definition environ_complete :: "ustring \<Rightarrow> ustring option" where
  "environ_complete n =
     (if n = env_TELEGRAM_TOKEN then Some [116, 111, 107]
      else if n = env_GEMINI_API_KEY then Some [107, 101, 121]
      else None)"

definition environ_without_key :: "ustring \<Rightarrow> ustring option" where
  "environ_without_key n = (if n = env_TELEGRAM_TOKEN then Some [116, 111, 107] else None)"

section \<open>Properties\<close>

subsection \<open>Reading files\<close>


text \<open>
  \<^verbatim>\<open>load_reference\<close> raises the \<^verbatim>\<open>FileNotFoundError\<close> of line 67 when
  \<^verbatim>\<open>os.path.exists\<close> is false, and otherwise does what \<^verbatim>\<open>open\<close> and
  \<^verbatim>\<open>read\<close> do, which then raise no \<^verbatim>\<open>FileNotFoundError\<close>.
\<close>

lemma load_reference_absent:
  "\<not> os_path_exists files p \<Longrightarrow>
   load_reference files p =
     ([PathExists p], Inl (Exn FileNotFoundError (not_found_pre @ p @ not_found_post)))"
  by (simp add: load_reference_def)

lemma load_reference_present:
  "os_path_exists files p \<Longrightarrow>
   load_reference files p = ([PathExists p, OpenRead p], open_read files p)"
  by (simp add: load_reference_def)

lemma stat_class_not_missing: "stat_class y \<noteq> FileNotFoundError"
  by (cases y) simp_all

lemma io_class_not_missing: "io_class y \<noteq> FileNotFoundError"
  by (cases y) simp_all

lemma open_read_not_missing:
  assumes "os_path_exists files p" and "open_read files p = Inl e"
  shows "exn_cls e \<noteq> FileNotFoundError"
proof (cases "files p")
  case None
  with assms(1) show ?thesis by (simp add: os_path_exists_def)
next
  case (Some n)
  show ?thesis
  proof (cases n)
    case (NoStat why msg)
    with Some assms(1) show ?thesis by (simp add: os_path_exists_def)
  next
    case (Unreadable why msg)
    with Some assms(2) show ?thesis
      by (auto simp: open_read_def io_class_not_missing)
  next
    case (File bytes)
    with Some assms(2) show ?thesis
      by (auto simp: open_read_def split: option.splits)
  qed
qed

lemma office_reference_loads:
  "load_reference office_files FAQ_txt
     = ([PathExists FAQ_txt, OpenRead FAQ_txt], Inr office_reference)"
  by (simp add: load_reference_def os_path_exists_def open_read_def office_files_def
      office_bytes_def office_reference_def utf8_decode_def continuation_def)

subsection \<open>What each path through the handlers does\<close>

lemma handle_start_trace:
  "handle_start w m =
     ([log_start m, Answer (Reply (chat_id m) greeting_text HTML)],
      send_message w (Reply (chat_id m) greeting_text HTML))"
  by (simp add: handle_start_def answer_def)

lemma handle_text_typing_fails:
  "send_chat_action w (chat_id m) typing = Some e \<Longrightarrow>
   handle_text w m = ([log_received m, ChatAction (chat_id m) typing], Some e)"
  by (simp add: handle_text_def)

lemma handle_text_missing:
  assumes "send_chat_action w (chat_id m) typing = None"
    and "load_reference (fs w) FAQ_txt = (t, Inl err)"
    and "exn_cls err = FileNotFoundError"
  shows "handle_text w m =
     ([log_received m, ChatAction (chat_id m) typing] @ t
      @ [Log ERROR (exn_str err), Answer (Reply (chat_id m) missing_file_text HTML)],
      send_message w (Reply (chat_id m) missing_file_text HTML))"
  using assms by (simp add: handle_text_def answer_def)

lemma handle_text_escapes:
  assumes "send_chat_action w (chat_id m) typing = None"
    and "load_reference (fs w) FAQ_txt = (t, Inl err)"
    and "exn_cls err \<noteq> FileNotFoundError"
  shows "handle_text w m = ([log_received m, ChatAction (chat_id m) typing] @ t, Some err)"
  using assms by (simp add: handle_text_def)

lemma handle_text_upstream_error:
  assumes "send_chat_action w (chat_id m) typing = None"
    and "load_reference (fs w) FAQ_txt = (t, Inr ref)"
    and "generate_content w (ask_gemini_prompt (msg_text m) ref) = Inl e"
  shows "handle_text w m =
     ([log_received m, ChatAction (chat_id m) typing] @ t
      @ [GenerateContent (ask_gemini_prompt (msg_text m) ref), log_gemini_error m e,
         Answer (Reply (chat_id m) generic_failure_text HTML)],
      send_message w (Reply (chat_id m) generic_failure_text HTML))"
  using assms by (simp add: handle_text_def ask_gemini_def except_Exception_def answer_def)

lemma handle_text_answered:
  assumes "send_chat_action w (chat_id m) typing = None"
    and "load_reference (fs w) FAQ_txt = (t, Inr ref)"
    and "generate_content w (ask_gemini_prompt (msg_text m) ref) = Inr a"
    and "send_message w (Reply (chat_id m) a Markdown) = None"
  shows "handle_text w m =
     ([log_received m, ChatAction (chat_id m) typing] @ t
      @ [GenerateContent (ask_gemini_prompt (msg_text m) ref),
         Answer (Reply (chat_id m) a Markdown), log_answered m],
      None)"
  using assms by (simp add: handle_text_def ask_gemini_def answer_def)

lemma handle_text_answer_rejected:
  assumes "send_chat_action w (chat_id m) typing = None"
    and "load_reference (fs w) FAQ_txt = (t, Inr ref)"
    and "generate_content w (ask_gemini_prompt (msg_text m) ref) = Inr a"
    and "send_message w (Reply (chat_id m) a Markdown) = Some e"
  shows "handle_text w m =
     ([log_received m, ChatAction (chat_id m) typing] @ t
      @ [GenerateContent (ask_gemini_prompt (msg_text m) ref),
         Answer (Reply (chat_id m) a Markdown), log_gemini_error m e,
         Answer (Reply (chat_id m) generic_failure_text HTML)],
      send_message w (Reply (chat_id m) generic_failure_text HTML))"
  using assms by (simp add: handle_text_def ask_gemini_def except_Exception_def answer_def)

text \<open>
  The log lines and the events of \<^verbatim>\<open>load_reference\<close> are no replies and no
  upstream calls.
\<close>

lemma replies_append: "replies (xs @ ys) = replies xs @ replies ys"
  by (induction xs rule: replies.induct) simp_all

lemma upstream_calls_append:
  "upstream_calls (xs @ ys) = upstream_calls xs @ upstream_calls ys"
  by (induction xs rule: upstream_calls.induct) simp_all

lemma log_events [simp]:
  "replies (log_start m # es) = replies es"
  "replies (log_received m # es) = replies es"
  "replies (log_answered m # es) = replies es"
  "replies (log_gemini_error m e # es) = replies es"
  "upstream_calls (log_start m # es) = upstream_calls es"
  "upstream_calls (log_received m # es) = upstream_calls es"
  "upstream_calls (log_answered m # es) = upstream_calls es"
  "upstream_calls (log_gemini_error m e # es) = upstream_calls es"
  "file_accesses (log_start m # es) = file_accesses es"
  by (simp_all add: log_start_def log_received_def log_answered_def log_gemini_error_def)

lemma load_reference_events [simp]:
  "replies (fst (load_reference files p)) = []"
  "upstream_calls (fst (load_reference files p)) = []"
  by (simp_all add: load_reference_def)

lemma loaded_events:
  assumes "load_reference files p = (t, r)"
  shows "replies t = []" and "upstream_calls t = []"
  using load_reference_events [of files p] assms by simp_all




lemma replies_loaded:
  assumes "send_chat_action w (chat_id m) typing = None"
    and "snd (load_reference (fs w) FAQ_txt) = Inr ref"
  shows "replies (fst (handle_text w m)) =
     (case generate_content w (ask_gemini_prompt (msg_text m) ref) of
        Inl e \<Rightarrow> [Reply (chat_id m) generic_failure_text HTML]
      | Inr a \<Rightarrow>
          (case send_message w (Reply (chat_id m) a Markdown) of
             None \<Rightarrow> [Reply (chat_id m) a Markdown]
           | Some e \<Rightarrow> [Reply (chat_id m) a Markdown,
                         Reply (chat_id m) generic_failure_text HTML]))"
proof -
  obtain t where l: "load_reference (fs w) FAQ_txt = (t, Inr ref)"
    using assms(2) by (cases "load_reference (fs w) FAQ_txt") simp
  note t = loaded_events [OF l]
  show ?thesis
  proof (cases "generate_content w (ask_gemini_prompt (msg_text m) ref)")
    case (Inl e)
    from handle_text_upstream_error [OF assms(1) l Inl] t Inl show ?thesis
      by (simp add: replies_append)
  next
    case (Inr a)
    show ?thesis
    proof (cases "send_message w (Reply (chat_id m) a Markdown)")
      case None
      from handle_text_answered [OF assms(1) l Inr None] t Inr None show ?thesis
        by (simp add: replies_append)
    next
      case (Some e)
      from handle_text_answer_rejected [OF assms(1) l Inr Some] t Inr Some show ?thesis
        by (simp add: replies_append)
    qed
  qed
qed

text \<open>The upstream is called at most once, and only after the reference was loaded.\<close>

lemma upstream_calls_handle_text:
  "upstream_calls (fst (handle_text w m)) =
     (case send_chat_action w (chat_id m) typing of
        Some e \<Rightarrow> []
      | None \<Rightarrow>
          (case snd (load_reference (fs w) FAQ_txt) of
             Inl err \<Rightarrow> []
           | Inr ref \<Rightarrow> [ask_gemini_prompt (msg_text m) ref]))"
proof (cases "send_chat_action w (chat_id m) typing")
  case (Some e)
  then show ?thesis by (simp add: handle_text_typing_fails)
next
  case None
  note typing_ok = this
  obtain t r where l: "load_reference (fs w) FAQ_txt = (t, r)"
    by (cases "load_reference (fs w) FAQ_txt")
  note t = loaded_events [OF l]
  show ?thesis
  proof (cases r)
    case (Inl err)
    with l have l': "load_reference (fs w) FAQ_txt = (t, Inl err)" by simp
    show ?thesis
    proof (cases "exn_cls err = FileNotFoundError")
      case True
      from handle_text_missing [OF typing_ok l' True] t typing_ok l' show ?thesis
        by (simp add: upstream_calls_append)
    next
      case False
      from handle_text_escapes [OF typing_ok l' False] t typing_ok l' show ?thesis
        by (simp add: upstream_calls_append)
    qed
  next
    case (Inr ref)
    with l have l': "load_reference (fs w) FAQ_txt = (t, Inr ref)" by simp
    show ?thesis
    proof (cases "generate_content w (ask_gemini_prompt (msg_text m) ref)")
      case (Inl e)
      from handle_text_upstream_error [OF typing_ok l' Inl] t typing_ok l' show ?thesis
        by (simp add: upstream_calls_append)
    next
      case (Inr a)
      show ?thesis
      proof (cases "send_message w (Reply (chat_id m) a Markdown)")
        case None
        from handle_text_answered [OF typing_ok l' Inr None] t typing_ok l' show ?thesis
          by (simp add: upstream_calls_append)
      next
        case (Some e)
        from handle_text_answer_rejected [OF typing_ok l' Inr Some] t typing_ok l'
        show ?thesis by (simp add: upstream_calls_append)
      qed
    qed
  qed
qed

lemma upstream_called_then:
  assumes "p \<in> set (upstream_calls (fst (handle_text w m)))"
  shows "\<exists>ref. send_chat_action w (chat_id m) typing = None
       \<and> snd (load_reference (fs w) FAQ_txt) = Inr ref
       \<and> p = ask_gemini_prompt (msg_text m) ref"
proof (cases "send_chat_action w (chat_id m) typing")
  case (Some e)
  with assms show ?thesis by (simp add: upstream_calls_handle_text)
next
  case None
  with assms show ?thesis
    by (cases "snd (load_reference (fs w) FAQ_txt)")
      (simp_all add: upstream_calls_handle_text)
qed

text \<open>
  With both credentials set, logging set up, the clients created and the webhook
  cleared, the program does start polling.
\<close>

lemma program_starts_polling:
  assumes "environ env_TELEGRAM_TOKEN = Some token" and "token \<noteq> []"
    and "environ env_GEMINI_API_KEY = Some api_key" and "api_key \<noteq> []"
    and "logging_setup w = None" and "create_clients w token api_key = None"
    and "delete_webhook w = None"
  shows "StartPolling \<in> set (fst (program environ command_start w inbox))"
  using assms
  by (simp add: program_def from_check_def startup_def truthy_def main_def Let_def)

subsection \<open>C2: the prompt\<close>

text \<open>
  C2. For every question and reference, the prompt that \<^verbatim>\<open>ask_gemini\<close> composes
  contains the question and the reference verbatim, as contiguous substrings, and it
  is determined by the two strings alone: whatever the state of the outside world,
  the call sends this one prompt upstream.
\<close>

theorem C2_prompt_contains_question_and_reference:
  "sublist q (ask_gemini_prompt (Some q) r)
   \<and> sublist r (ask_gemini_prompt (Some q) r)
   \<and> fst (ask_gemini w (Some q) r) = [GenerateContent (ask_gemini_prompt (Some q) r)]
   \<and> fst (ask_gemini w (Some q) r) = fst (ask_gemini w' (Some q) r)"
proof -
  have "ask_gemini_prompt (Some q) r = (prompt_head @ r @ prompt_tail) @ q @ []"
    by (simp add: ask_gemini_prompt_def str_opt_def)
  then have q: "sublist q (ask_gemini_prompt (Some q) r)"
    unfolding sublist_def by blast
  have "ask_gemini_prompt (Some q) r = prompt_head @ r @ (prompt_tail @ q)"
    by (simp add: ask_gemini_prompt_def str_opt_def)
  then have r: "sublist r (ask_gemini_prompt (Some q) r)"
    unfolding sublist_def by blast
  show ?thesis using q r by (simp add: ask_gemini_def Let_def)
qed

theorem C2_office_hours_prompt:
  "sublist office_question (ask_gemini_prompt (Some office_question) office_reference)
   \<and> sublist office_reference (ask_gemini_prompt (Some office_question) office_reference)
   \<and> fst (ask_gemini office_world (Some office_question) office_reference)
       = fst (ask_gemini (office_world\<lparr>generate_content := upstream_down\<rparr>)
                (Some office_question) office_reference)"
  using C2_prompt_contains_question_and_reference
    [of office_question office_reference office_world
        "office_world\<lparr>generate_content := upstream_down\<rparr>"]
  by blast

subsection \<open>C7: the start command\<close>

text \<open>
  C7. For every \<^verbatim>\<open>/start\<close> command event (a message that the command filter
  accepts), handling sends exactly one reply, the fixed greeting, to the chat of the
  message, and looks at no file and calls no upstream.
\<close>

theorem C7_start_sends_greeting_only:
  assumes "command_start m"
  shows "replies (fst (dispatch command_start w m)) = [Reply (chat_id m) greeting_text HTML]
       \<and> file_accesses (fst (dispatch command_start w m)) = []
       \<and> upstream_calls (fst (dispatch command_start w m)) = []"
  using assms by (simp add: dispatch_def handle_start_trace)

theorem C7_start_message_greeted:
  "exactly_start start_message
   \<and> replies (fst (dispatch exactly_start office_world start_message))
       = [Reply 7 greeting_text HTML]
   \<and> file_accesses (fst (dispatch exactly_start office_world start_message)) = []
   \<and> upstream_calls (fst (dispatch exactly_start office_world start_message)) = []"
proof -
  have h: "exactly_start start_message"
    by (simp add: exactly_start_def start_message_def)
  have c: "chat_id start_message = 7"
    by (simp add: start_message_def)
  show ?thesis
    using h C7_start_sends_greeting_only [of exactly_start start_message office_world]
    by (simp add: c)
qed

subsection \<open>C5: loading the reference\<close>




subsection \<open>C6: the startup check\<close>

text \<open>
  C6. If the bot token or the API key is missing from the environment, the startup
  check logs one critical line and exits through \<^verbatim>\<open>exit\<close>: that line is the whole
  trace of the module from the check on, so polling never starts and no message of
  the inbox is handled. The whole program does the same once logging is set up; if
  setting up logging raises, the process ends before the check, and again polling
  never starts and no reply is sent.
\<close>

theorem C6_missing_credential_exits:
  assumes "environ env_TELEGRAM_TOKEN = None \<or> environ env_GEMINI_API_KEY = None"
  shows "from_check environ command_start w inbox
           = ([Log CRITICAL critical_text], SystemExit exit_text)
       \<and> program environ command_start w inbox
           = (case logging_setup w of
                None \<Rightarrow> ([Log CRITICAL critical_text], SystemExit exit_text)
              | Some e \<Rightarrow> ([], Uncaught e))
       \<and> StartPolling \<notin> set (fst (program environ command_start w inbox))
       \<and> replies (fst (program environ command_start w inbox)) = []"
proof -
  from assms have "\<not> truthy (environ env_TELEGRAM_TOKEN) \<or> \<not> truthy (environ env_GEMINI_API_KEY)"
    by (auto simp: truthy_def)
  then have "from_check environ command_start w inbox
           = ([Log CRITICAL critical_text], SystemExit exit_text)"
    by (auto simp: from_check_def startup_def Let_def)
  then show ?thesis
    by (cases "logging_setup w") (simp_all add: program_def)
qed

theorem C6_no_api_key_no_polling:
  "environ_without_key env_GEMINI_API_KEY = None
   \<and> program environ_without_key exactly_start office_world [start_message, office_message]
       = ([Log CRITICAL critical_text], SystemExit exit_text)"
proof -
  have h: "environ_without_key env_GEMINI_API_KEY = None"
    by (simp add: environ_without_key_def env_GEMINI_API_KEY_def env_TELEGRAM_TOKEN_def)
  then have "environ_without_key env_TELEGRAM_TOKEN = None
      \<or> environ_without_key env_GEMINI_API_KEY = None" by simp
  from h C6_missing_credential_exits [OF this, of exactly_start office_world] show ?thesis
    by (simp add: office_world_def)
qed

subsection \<open>C4: an upstream error\<close>

text \<open>
  C4. If the handler calls the upstream and the call raises, whatever the exception,
  the handler sends exactly one reply, the fixed generic-failure message. The reply
  is the same for every exception: the text of the exception goes to the log line
  and to no reply.
\<close>

theorem C4_upstream_error_generic_reply:
  assumes "p \<in> set (upstream_calls (fst (handle_text w m)))"
    and "generate_content w p = Inl e"
  shows "replies (fst (handle_text w m)) = [Reply (chat_id m) generic_failure_text HTML]
       \<and> log_gemini_error m e \<in> set (fst (handle_text w m))"
proof -
  from upstream_called_then [OF assms(1)]
  obtain ref where typing_ok: "send_chat_action w (chat_id m) typing = None"
    and loaded: "snd (load_reference (fs w) FAQ_txt) = Inr ref"
    and p: "p = ask_gemini_prompt (msg_text m) ref"
    by blast
  obtain t where l: "load_reference (fs w) FAQ_txt = (t, Inr ref)"
    using loaded by (cases "load_reference (fs w) FAQ_txt") simp
  from assms(2) p have "generate_content w (ask_gemini_prompt (msg_text m) ref) = Inl e"
    by simp
  from handle_text_upstream_error [OF typing_ok l this] loaded_events [OF l]
  show ?thesis by (simp add: replies_append)
qed

theorem C4_quota_exceeded_generic_reply:
  "ask_gemini_prompt (Some office_question) office_reference
     \<in> set (upstream_calls (fst (handle_text
          (office_world\<lparr>generate_content := upstream_down\<rparr>) office_message)))
   \<and> replies (fst (handle_text (office_world\<lparr>generate_content := upstream_down\<rparr>)
                     office_message))
       = [Reply 7 generic_failure_text HTML]"
proof -
  let ?w = "office_world\<lparr>generate_content := upstream_down\<rparr>"
  let ?p = "ask_gemini_prompt (Some office_question) office_reference"
  have called: "?p \<in> set (upstream_calls (fst (handle_text ?w office_message)))"
    by (simp add: upstream_calls_handle_text office_world_def chat_action_ok_def
        office_reference_loads office_message_def)
  have raised: "generate_content ?w ?p
      = Inl (Exn OtherException
               [113, 117, 111, 116, 97, 32, 101, 120, 99, 101, 101, 100, 101, 100])"
    by (simp add: upstream_down_def)
  from called C4_upstream_error_generic_reply [OF called raised] show ?thesis
    by (simp add: office_message_def)
qed

subsection \<open>C8: a reference file that is there but cannot be read\<close>

text \<open>
  C8. If the reference file exists (\<^verbatim>\<open>os.path.exists\<close> is true) but opening,
  reading or decoding it raises (no permission, a directory, bytes that are not
  UTF-8), the exception is no \<^verbatim>\<open>FileNotFoundError\<close> and the handler recovers
  nothing: an exception escapes it, the upstream is not called and no reply is sent.
  When the typing indicator went out, the escaping exception is the one of the read.
\<close>

theorem C8_unreadable_reference_escapes:
  assumes "os_path_exists (fs w) FAQ_txt" and "open_read (fs w) FAQ_txt = Inl e"
  shows "exn_cls e \<noteq> FileNotFoundError
       \<and> replies (fst (handle_text w m)) = []
       \<and> upstream_calls (fst (handle_text w m)) = []
       \<and> snd (handle_text w m) \<noteq> None
       \<and> (send_chat_action w (chat_id m) typing = None \<longrightarrow> snd (handle_text w m) = Some e)"
proof -
  have cls: "exn_cls e \<noteq> FileNotFoundError"
    using assms by (rule open_read_not_missing)
  have l: "load_reference (fs w) FAQ_txt = ([PathExists FAQ_txt, OpenRead FAQ_txt], Inl e)"
    using assms by (simp add: load_reference_present)
  show ?thesis
  proof (cases "send_chat_action w (chat_id m) typing")
    case None
    from handle_text_escapes [OF None l cls] None cls show ?thesis by simp
  next
    case (Some x)
    from handle_text_typing_fails [OF Some] Some cls show ?thesis by simp
  qed
qed

theorem C8_locked_file_no_reply:
  "fs (office_world\<lparr>fs := locked_files\<rparr>) FAQ_txt
     = Some (Unreadable PermissionDenied
               [80, 101, 114, 109, 105, 115, 115, 105, 111, 110, 32, 100, 101, 110, 105,
                101, 100])
   \<and> replies (fst (handle_text (office_world\<lparr>fs := locked_files\<rparr>) office_message)) = []
   \<and> upstream_calls (fst (handle_text (office_world\<lparr>fs := locked_files\<rparr>) office_message))
       = []
   \<and> snd (handle_text (office_world\<lparr>fs := locked_files\<rparr>) office_message)
       = Some (Exn PermissionError
                 [80, 101, 114, 109, 105, 115, 115, 105, 111, 110, 32, 100, 101, 110, 105,
                  101, 100])
   \<and> replies (fst (handle_text (office_world\<lparr>fs := cp1252_files\<rparr>) office_message)) = []
   \<and> snd (handle_text (office_world\<lparr>fs := cp1252_files\<rparr>) office_message)
       = Some (Exn UnicodeDecodeError codec_error_text)"
proof -
  let ?w = "office_world\<lparr>fs := locked_files\<rparr>"
  let ?v = "office_world\<lparr>fs := cp1252_files\<rparr>"
  have locked: "fs ?w FAQ_txt
     = Some (Unreadable PermissionDenied
               [80, 101, 114, 109, 105, 115, 115, 105, 111, 110, 32, 100, 101, 110, 105,
                101, 100])"
    by (simp add: locked_files_def)
  have exists: "os_path_exists (fs ?w) FAQ_txt" "os_path_exists (fs ?v) FAQ_txt"
    by (simp_all add: os_path_exists_def locked_files_def cp1252_files_def)
  have refused: "open_read (fs ?w) FAQ_txt
     = Inl (Exn PermissionError
              [80, 101, 114, 109, 105, 115, 115, 105, 111, 110, 32, 100, 101, 110, 105,
               101, 100])"
    by (simp add: open_read_def locked_files_def)
  have undecoded: "open_read (fs ?v) FAQ_txt = Inl (Exn UnicodeDecodeError codec_error_text)"
    by (simp add: open_read_def cp1252_files_def utf8_decode_def continuation_def)
  have typing_ok: "send_chat_action ?w (chat_id office_message) typing = None"
    "send_chat_action ?v (chat_id office_message) typing = None"
    by (simp_all add: office_world_def chat_action_ok_def)
  from locked typing_ok
    C8_unreadable_reference_escapes [OF exists(1) refused, of office_message]
    C8_unreadable_reference_escapes [OF exists(2) undecoded, of office_message]
  show ?thesis by simp
qed

subsection \<open>C9: an answer that cannot be delivered\<close>

text \<open>
  C9. The send of the answer is inside the same \<^verbatim>\<open>try\<close> as the upstream call:
  if the upstream returns an answer and sending it raises (the platform rejects the
  Markdown, say), the handler sends the fixed generic-failure message after it.
\<close>

theorem C9_failed_answer_send_gets_generic_reply:
  assumes "p \<in> set (upstream_calls (fst (handle_text w m)))"
    and "generate_content w p = Inr a"
    and "send_message w (Reply (chat_id m) a Markdown) = Some e"
  shows "replies (fst (handle_text w m))
           = [Reply (chat_id m) a Markdown, Reply (chat_id m) generic_failure_text HTML]
       \<and> log_gemini_error m e \<in> set (fst (handle_text w m))"
proof -
  from upstream_called_then [OF assms(1)]
  obtain ref where typing_ok: "send_chat_action w (chat_id m) typing = None"
    and loaded: "snd (load_reference (fs w) FAQ_txt) = Inr ref"
    and p: "p = ask_gemini_prompt (msg_text m) ref"
    by blast
  obtain t where l: "load_reference (fs w) FAQ_txt = (t, Inr ref)"
    using loaded by (cases "load_reference (fs w) FAQ_txt") simp
  from assms(2) p have "generate_content w (ask_gemini_prompt (msg_text m) ref) = Inr a"
    by simp
  from handle_text_answer_rejected [OF typing_ok l this assms(3)] loaded_events [OF l]
  show ?thesis by (simp add: replies_append)
qed

theorem C9_rejected_markdown_generic_reply:
  "ask_gemini_prompt (Some office_question) office_reference
     \<in> set (upstream_calls (fst (handle_text
          (office_world\<lparr>send_message := markdown_rejected\<rparr>) office_message)))
   \<and> replies (fst (handle_text (office_world\<lparr>send_message := markdown_rejected\<rparr>)
                     office_message))
       = [Reply 7 office_answer Markdown, Reply 7 generic_failure_text HTML]
   \<and> delivered (office_world\<lparr>send_message := markdown_rejected\<rparr>)
        (fst (handle_text (office_world\<lparr>send_message := markdown_rejected\<rparr>)
               office_message))
       = [Reply 7 generic_failure_text HTML]"
proof -
  let ?w = "office_world\<lparr>send_message := markdown_rejected\<rparr>"
  let ?p = "ask_gemini_prompt (Some office_question) office_reference"
  have called: "?p \<in> set (upstream_calls (fst (handle_text ?w office_message)))"
    by (simp add: upstream_calls_handle_text office_world_def chat_action_ok_def
        office_reference_loads office_message_def)
  have answered: "generate_content ?w ?p = Inr office_answer"
    by (simp add: office_world_def office_upstream_def)
  have rejected: "send_message ?w (Reply (chat_id office_message) office_answer Markdown)
      = Some (Exn OtherException
                [99, 97, 110, 39, 116, 32, 112, 97, 114, 115, 101, 32, 101, 110, 116, 105,
                 116, 105, 101, 115])"
    by (simp add: markdown_rejected_def)
  from called C9_failed_answer_send_gets_generic_reply [OF called answered rejected]
  show ?thesis
    by (simp add: office_message_def delivered_def markdown_rejected_def)
qed

subsection \<open>C3: the reference file is missing\<close>

text \<open>
  C3, as the code has it. The claim reads: if the reference file is absent when a
  free-text event is handled, handling sends exactly one reply, the missing-file
  message, never calls the upstream, and stops. The typing indicator is sent before
  the file is looked for and outside every \<^verbatim>\<open>try\<close>; when that call raises, the
  handler ends there with no reply, file or no file.
\<close>

theorem C3_no_file_and_typing_fails_no_reply:
  "fs (office_world\<lparr>fs := no_files, send_chat_action := chat_action_down\<rparr>) FAQ_txt = None
   \<and> replies (fst (handle_text
         (office_world\<lparr>fs := no_files, send_chat_action := chat_action_down\<rparr>)
         office_message)) = []"
  by (simp add: no_files_def chat_action_down_def handle_text_typing_fails)

text \<open>
  C3, amended. If the reference file is absent, the upstream is never called. If
  moreover the typing indicator was sent without error, handling sends exactly one
  reply, the fixed missing-file message, and stops there: that send is the last
  event of the handler, and its outcome is the outcome of the handler. If the typing
  call raised, no reply is sent.
\<close>

theorem C3_missing_file_notice:
  assumes "fs w FAQ_txt = None"
  shows "upstream_calls (fst (handle_text w m)) = []
       \<and> (send_chat_action w (chat_id m) typing = None \<longrightarrow>
            replies (fst (handle_text w m)) = [Reply (chat_id m) missing_file_text HTML]
            \<and> last (fst (handle_text w m)) = Answer (Reply (chat_id m) missing_file_text HTML)
            \<and> snd (handle_text w m) = send_message w (Reply (chat_id m) missing_file_text HTML))
       \<and> (send_chat_action w (chat_id m) typing \<noteq> None \<longrightarrow>
            replies (fst (handle_text w m)) = [])"
proof (cases "send_chat_action w (chat_id m) typing")
  case None
  from assms have "load_reference (fs w) FAQ_txt
      = ([PathExists FAQ_txt],
         Inl (Exn FileNotFoundError (not_found_pre @ FAQ_txt @ not_found_post)))"
    by (simp add: load_reference_absent os_path_exists_def)
  from handle_text_missing [OF None this] None show ?thesis by simp
next
  case (Some e)
  from handle_text_typing_fails [OF Some] Some show ?thesis by simp
qed

theorem C3_no_file_one_notice:
  "fs (office_world\<lparr>fs := no_files\<rparr>) FAQ_txt = None
   \<and> send_chat_action (office_world\<lparr>fs := no_files\<rparr>) (chat_id office_message) typing = None
   \<and> replies (fst (handle_text (office_world\<lparr>fs := no_files\<rparr>) office_message))
       = [Reply 7 missing_file_text HTML]
   \<and> upstream_calls (fst (handle_text (office_world\<lparr>fs := no_files\<rparr>) office_message)) = []"
proof -
  let ?w = "office_world\<lparr>fs := no_files\<rparr>"
  have absent: "fs ?w FAQ_txt = None"
    by (simp add: no_files_def)
  have typing_ok: "send_chat_action ?w (chat_id office_message) typing = None"
    by (simp add: office_world_def chat_action_ok_def)
  from absent typing_ok C3_missing_file_notice [OF absent, of office_message]
  show ?thesis by (simp add: office_message_def)
qed

subsection \<open>C10: a message without text\<close>

text \<open>
  C10. Every message that the command filter does not accept goes to
  \<^verbatim>\<open>handle_text\<close>, also one without text. Such a message is handled exactly as
  a message whose text is the four characters \<^verbatim>\<open>None\<close>: when the typing
  indicator goes out and the reference is loaded, the upstream is called with the
  prompt that ends in \<^verbatim>\<open>None\<close>, and a reply is sent.
\<close>

theorem C10_absent_text_runs_pipeline:
  "(\<not> command_start m \<longrightarrow> dispatch command_start w m = handle_text w m)
   \<and> handle_text w (m\<lparr>msg_text := None\<rparr>)
       = handle_text w (m\<lparr>msg_text := Some [78, 111, 110, 101]\<rparr>)
   \<and> (msg_text m = None \<and> send_chat_action w (chat_id m) typing = None
        \<and> snd (load_reference (fs w) FAQ_txt) = Inr ref \<longrightarrow>
        upstream_calls (fst (handle_text w m))
          = [prompt_head @ ref @ prompt_tail @ [78, 111, 110, 101]]
        \<and> replies (fst (handle_text w m)) \<noteq> [])"
proof -
  have same: "handle_text w (m\<lparr>msg_text := None\<rparr>)
       = handle_text w (m\<lparr>msg_text := Some [78, 111, 110, 101]\<rparr>)"
    by (simp add: handle_text_def log_received_def log_answered_def str_opt_def
        ask_gemini_def ask_gemini_prompt_def except_Exception_def log_gemini_error_def
        answer_def Let_def split: option.splits prod.splits sum.splits)
  have pipeline: "upstream_calls (fst (handle_text w m))
          = [prompt_head @ ref @ prompt_tail @ [78, 111, 110, 101]]
        \<and> replies (fst (handle_text w m)) \<noteq> []"
    if "msg_text m = None" and typing_ok: "send_chat_action w (chat_id m) typing = None"
      and loaded: "snd (load_reference (fs w) FAQ_txt) = Inr ref"
  proof -
    have "upstream_calls (fst (handle_text w m))
          = [prompt_head @ ref @ prompt_tail @ [78, 111, 110, 101]]"
      using that by (simp add: upstream_calls_handle_text ask_gemini_prompt_def str_opt_def)
    moreover have "replies (fst (handle_text w m)) \<noteq> []"
      unfolding replies_loaded [OF typing_ok loaded]
      by (simp split: sum.splits option.splits)
    ultimately show ?thesis by simp
  qed
  show ?thesis using same pipeline by (simp add: dispatch_def)
qed

theorem C10_sticker_is_answered:
  "\<not> exactly_start sticker_message
   \<and> dispatch exactly_start office_world sticker_message
       = handle_text office_world sticker_message
   \<and> upstream_calls (fst (handle_text office_world sticker_message))
       = [prompt_head @ office_reference @ prompt_tail @ [78, 111, 110, 101]]
   \<and> replies (fst (handle_text office_world sticker_message)) \<noteq> []"
proof -
  have not_command: "\<not> exactly_start sticker_message"
    by (simp add: exactly_start_def sticker_message_def)
  have no_text: "msg_text sticker_message = None"
    by (simp add: sticker_message_def)
  have typing_ok: "send_chat_action office_world (chat_id sticker_message) typing = None"
    by (simp add: office_world_def chat_action_ok_def)
  have loaded: "snd (load_reference (fs office_world) FAQ_txt) = Inr office_reference"
    by (simp add: office_world_def office_reference_loads)
  from not_command no_text typing_ok loaded
    C10_absent_text_runs_pipeline
      [of exactly_start sticker_message office_world office_reference]
  show ?thesis by simp
qed

subsection \<open>C1: the number of replies\<close>




end
